theory Spec2Isabelle
  imports Complex_Main "HOL-Library.Char_ord" "HOL-Library.List_Lexorder"
begin

section \<open>Python values: strings, integers, exceptions\<close>

text \<open>
  The comparison script \<^verbatim>\<open>scripts/py/compare.py\<close> is embedded function by function.
  A Python \<^verbatim>\<open>str\<close> is a \<^typ>\<open>string\<close>: a list of characters, each character a code
  point below 256. On that range the decimal digits known to \<^verbatim>\<open>\d\<close> and to
  \<^verbatim>\<open>int()\<close> are \<^verbatim>\<open>0\<close> to \<^verbatim>\<open>9\<close> only. Python integers are unbounded, so they are
  \<^typ>\<open>int\<close>. A raised exception is the left summand of the result.
\<close>

datatype error =
    Exception string
  | ValueError
  | KeyError string
  | TypeError
  | AttributeError
  | OSError string
  | JSONDecodeError

definition dq :: char where
  "dq = CHR 0x22"

definition nl :: char where
  "nl = CHR 0x0A"

definition is_digit :: "char \<Rightarrow> bool" where
  "is_digit c \<longleftrightarrow> c \<in> set ''0123456789''"

definition digit_val :: "char \<Rightarrow> int" where
  "digit_val c = of_char c - 48"

text \<open>The character of a digit \<open>d\<close> from 0 to 9.\<close>

definition digit_char :: "int \<Rightarrow> char" where
  "digit_char d = char_of (48 + d)"

text \<open>The value of a string of decimal digits, most significant digit first.\<close>

definition int_of_digits :: "string \<Rightarrow> int" where
  "int_of_digits ds = foldl (\<lambda>a c. 10 * a + digit_val c) 0 ds"

text \<open>The decimal digits of an integer that is not negative, as \<^verbatim>\<open>str(n)\<close> writes them.\<close>

function digits_of_int :: "int \<Rightarrow> string" where
  "digits_of_int n =
     (if n < 10 then [digit_char n]
      else digits_of_int (n div 10) @ [digit_char (n mod 10)])"
  by pat_completeness auto
termination
  by (relation "measure nat") auto

declare digits_of_int.simps [simp del]

text \<open>\<^verbatim>\<open>str(n)\<close> and \<^verbatim>\<open>f"{n}"\<close> for an integer.\<close>

definition py_str_int :: "int \<Rightarrow> string" where
  "py_str_int n = (if n < 0 then CHR ''-'' # digits_of_int (- n) else digits_of_int n)"

text \<open>
  \<^verbatim>\<open>f"{n:_}"\<close>: the digits in groups of three from the right, separated by underscores.
  \<open>group3\<close> works on the reversed digit string.
\<close>

fun group3 :: "string \<Rightarrow> string" where
  "group3 (a # b # c # d # r) = a # b # c # CHR ''_'' # group3 (d # r)"
| "group3 r = r"

definition py_format_grouped :: "int \<Rightarrow> string" where
  "py_format_grouped n =
     (if n < 0 then CHR ''-'' # rev (group3 (rev (digits_of_int (- n))))
      else rev (group3 (rev (digits_of_int n))))"

text \<open>
  \<^verbatim>\<open>"{:0w}".format(n)\<close>: the sign first, then zeros up to the total width \<open>w\<close>, then the
  digits; a number wider than \<open>w\<close> is written in full.
\<close>

definition py_format_zero :: "nat \<Rightarrow> int \<Rightarrow> string" where
  "py_format_zero w n =
     (if n < 0
      then CHR ''-'' # replicate (w - 1 - length (digits_of_int (- n))) CHR ''0''
             @ digits_of_int (- n)
      else replicate (w - length (digits_of_int n)) CHR ''0'' @ digits_of_int n)"

text \<open>
  \<^verbatim>\<open>int(s)\<close> in base 10: white space around the number is dropped, one sign is allowed, the
  rest is a non-empty run of digits in which single underscores may separate digits.
  Since Python 3.11 the interpreter refuses, with \<^verbatim>\<open>ValueError\<close>, a string of more than
  4300 digits (the default of \<^verbatim>\<open>sys.get_int_max_str_digits()\<close>); leading zeros count, the
  sign, the underscores and the white space do not. The same limit makes the conversion of an
  integer of more than 4300 digits to a string fail.
\<close>

definition int_max_str_digits :: nat where
  "int_max_str_digits = 4300"

definition is_space_int :: "char \<Rightarrow> bool" where
  "is_space_int c \<longleftrightarrow>
     c \<in> set [CHR 0x09, CHR 0x0A, CHR 0x0B, CHR 0x0C, CHR 0x0D, CHR 0x20, CHR 0x85, CHR 0xA0]"

definition strip_int :: "string \<Rightarrow> string" where
  "strip_int s = rev (dropWhile is_space_int (rev (dropWhile is_space_int s)))"

fun int_body_ok :: "string \<Rightarrow> bool" where
  "int_body_ok [] = False"
| "int_body_ok [c] = is_digit c"
| "int_body_ok (c # d # cs) =
     (is_digit c \<and> (if d = CHR ''_'' then int_body_ok cs else int_body_ok (d # cs)))"

definition py_int :: "string \<Rightarrow> error + int" where
  "py_int s =
     (let t = strip_int s;
          neg = (t \<noteq> [] \<and> hd t = CHR ''-'');
          body = (if t \<noteq> [] \<and> (hd t = CHR ''-'' \<or> hd t = CHR ''+'') then tl t else t)
      in if int_body_ok body \<and> length (filter is_digit body) \<le> int_max_str_digits
         then Inr ((if neg then - 1 else 1) * int_of_digits (filter is_digit body))
         else Inl ValueError)"

text \<open>\<^verbatim>\<open>s.endswith(suffix)\<close>.\<close>

definition endswith :: "string \<Rightarrow> string \<Rightarrow> bool" where
  "endswith s suffix \<longleftrightarrow>
     length suffix \<le> length s \<and> drop (length s - length suffix) s = suffix"

text \<open>
  \<^verbatim>\<open>s.replace(old, new)\<close>: one pass from the left, the occurrences of \<open>old\<close> replaced
  do not overlap. With an empty \<open>old\<close> Python puts \<open>new\<close> before every character and at
  the end.
\<close>

function replace :: "string \<Rightarrow> string \<Rightarrow> string \<Rightarrow> string" where
  "replace s old new =
     (if old = [] then new @ concat (map (\<lambda>c. c # new) s)
      else if take (length old) s = old then new @ replace (drop (length old) s) old new
      else (case s of [] \<Rightarrow> [] | c # cs \<Rightarrow> c # replace cs old new))"
  by pat_completeness auto
termination
proof (relation "measure (\<lambda>(s, old, new). length s)")
  show "wf (measure (\<lambda>(s, old, new). length s))"
    by simp
next
  fix s old new :: string
  assume nonempty: "old \<noteq> []" and pre: "take (length old) s = old"
  have "length (take (length old) s) = length old"
    using pre by simp
  then have "length old \<le> length s"
    by simp
  with nonempty show "((drop (length old) s, old, new), (s, old, new)) \<in> measure (\<lambda>(s, old, new). length s)"
    by (cases old) auto
next
  fix s old new :: string and c cs
  assume "s = c # cs"
  then show "((cs, old, new), (s, old, new)) \<in> measure (\<lambda>(s, old, new). length s)"
    by simp
qed

declare replace.simps [simp del]

text \<open>\<^verbatim>\<open>s.split(sep)\<close> for a separator of one character: always at least one part.\<close>

fun split :: "string \<Rightarrow> char \<Rightarrow> string list" where
  "split [] sep = [[]]"
| "split (c # cs) sep =
     (if c = sep then [] # split cs sep
      else (case split cs sep of [] \<Rightarrow> [[c]] | p # ps \<Rightarrow> (c # p) # ps))"

text \<open>\<^verbatim>\<open>sep.join(parts)\<close>.\<close>

fun join :: "string \<Rightarrow> string list \<Rightarrow> string" where
  "join sep [] = []"
| "join sep [p] = p"
| "join sep (p # q # ps) = p @ sep @ join sep (q # ps)"

section \<open>SizeParser: \<^verbatim>\<open>size_from_str\<close>\<close>

text \<open>
  \<^verbatim>\<open>re.match(r"(\d+)(KiB|MiB|GiB|bytes|byte)$", size_str)\<close>. The match starts at the
  first character. \<^verbatim>\<open>\d+\<close> is greedy; giving back a digit never helps, since no unit
  starts with a digit, so group 1 is the longest run of digits at the start. The units
  are tried in the order written. \<^verbatim>\<open>$\<close> matches at the end of the string and also just
  before a line feed that is the last character.
\<close>

definition units :: "string list" where
  "units = [''KiB'', ''MiB'', ''GiB'', ''bytes'', ''byte'']"

definition at_dollar :: "string \<Rightarrow> bool" where
  "at_dollar r \<longleftrightarrow> r = [] \<or> r = [nl]"

definition match_size :: "string \<Rightarrow> (string \<times> string) option" where
  "match_size s =
     (let ds = takeWhile is_digit s; rest = dropWhile is_digit s
      in if ds = [] then None
         else (case find (\<lambda>u. take (length u) rest = u \<and> at_dollar (drop (length u) rest)) units of
                 None \<Rightarrow> None
               | Some u \<Rightarrow> Some (ds, u)))"

definition size_from_str :: "string \<Rightarrow> error + int" where
  "size_from_str size_str =
     (case match_size size_str of
        Some (ds, unit) \<Rightarrow>
          (case py_int ds of
             Inl e \<Rightarrow> Inl e
           | Inr sz \<Rightarrow>
               Inr (if unit = ''KiB'' then sz * 1024
                    else if unit = ''MiB'' then sz * (1024 * 1024)
                    else if unit = ''GiB'' then sz * (1024 * 1024 * 1024)
                    else sz))
      | None \<Rightarrow>
          Inl (Exception (''Illegal size '' @ [dq] @ size_str @ [dq]
                 @ ''. Expected something like '' @ [dq] @ ''1KiB'' @ [dq])))"

section \<open>WorkloadCompiler: \<^verbatim>\<open>parse_workload_name\<close> and \<^verbatim>\<open>generate_tasks_from_workload_name\<close>\<close>

text \<open>\<^verbatim>\<open>s[:-n]\<close>: all but the last \<open>n\<close> characters, nothing when \<open>s\<close> is shorter.\<close>

definition drop_last :: "nat \<Rightarrow> string \<Rightarrow> string" where
  "drop_last n s = take (length s - n) s"

text \<open>The parser returns \<^verbatim>\<open>(action, file_size_str, num_files, files_on_disk)\<close>.\<close>

definition parse_workload_name :: "string \<Rightarrow> error + (string \<times> string \<times> int \<times> bool)" where
  "parse_workload_name name0 =
     (let name1 = replace name0 ''.json'' [];
          files_on_disk = (\<not> endswith name1 ''-ram'');
          name = (if endswith name1 ''-ram'' then drop_last 4 name1 else name1);
          parts = split name CHR ''-''
      in if length parts < 3
         then Inl (Exception (''Invalid workload name: '' @ name
                     @ ''. Expected: {action}-{size}-{count}x[-ram]''))
         else
           (let action = parts ! 0
            in if action \<notin> set [''upload'', ''download'']
               then Inl (Exception (''Invalid action: '' @ action @ ''. Must be '' @ [dq]
                           @ ''upload'' @ [dq] @ '' or '' @ [dq] @ ''download'' @ [dq]))
               else
                 (let file_size_str = parts ! 1;
                      count_part = join ''-'' (drop 2 parts)
                  in if \<not> endswith count_part ''x''
                     then Inl (Exception (''Invalid count format: '' @ count_part
                                 @ ''. Must end with '' @ [dq] @ ''x'' @ [dq]))
                     else
                       (case py_int (replace (drop_last 1 count_part) ''_'' []) of
                          Inl e \<Rightarrow> Inl e
                        | Inr num_files \<Rightarrow> Inr (action, file_size_str, num_files, files_on_disk)))))"

text \<open>
  A task is the dictionary \<^verbatim>\<open>{'action': ..., 'key': ..., 'size': ...}\<close>.
\<close>

record task =
  task_action :: string
  task_key :: string
  task_size :: int

text \<open>
  \<^verbatim>\<open>int(math.log10(n))\<close>. Python computes the logarithm on IEEE doubles, which HOL does
  not have. For every \<open>n\<close> from 2 to \<open>10\<^sup>1\<^sup>5 - 3\<close> the double has the integer part of the
  exact logarithm to base 10, which \<open>log10_trunc\<close> computes. At \<open>10\<^sup>1\<^sup>5 - 2\<close> and at
  \<open>10\<^sup>1\<^sup>5 - 1\<close> the double is \<^verbatim>\<open>15.0\<close>, although the exact logarithm is below 15. From
  \<open>10\<^sup>1\<^sup>5 - 2\<close> on, the model takes the integer part that the platform computes as the
  parameter \<open>log10_big\<close>.
\<close>

function log10_trunc :: "int \<Rightarrow> nat" where
  "log10_trunc n = (if n < 10 then 0 else Suc (log10_trunc (n div 10)))"
  by pat_completeness auto
termination
  by (relation "measure nat") auto

declare log10_trunc.simps [simp del]

definition log10_int :: "(int \<Rightarrow> nat) \<Rightarrow> int \<Rightarrow> nat" where
  "log10_int log10_big n = (if n < 10 ^ 15 - 2 then log10_trunc n else log10_big n)"

text \<open>\<^verbatim>\<open>int(math.log10(num_files)) + 1 if num_files > 1 else 1\<close>.\<close>

definition int_width :: "(int \<Rightarrow> nat) \<Rightarrow> int \<Rightarrow> nat" where
  "int_width log10_big num_files =
     (if num_files > 1 then log10_int log10_big num_files + 1 else 1)"

definition dirname :: "string \<Rightarrow> int \<Rightarrow> string" where
  "dirname file_size_str num_files = file_size_str @ ''-'' @ py_format_grouped num_files @ ''x''"

text \<open>The task built for the loop index \<open>i\<close> of \<^verbatim>\<open>range(num_files)\<close>.\<close>

definition make_task ::
  "(int \<Rightarrow> nat) \<Rightarrow> string \<Rightarrow> string \<Rightarrow> int \<Rightarrow> int \<Rightarrow> nat \<Rightarrow> task" where
  "make_task log10_big action file_size_str num_files file_size i =
     \<lparr>task_action = action,
      task_key = action @ ''/'' @ dirname file_size_str num_files @ ''/''
                   @ py_format_zero (int_width log10_big num_files) (int i + 1),
      task_size = file_size\<rparr>"

definition generate_tasks_from_workload_name ::
  "(int \<Rightarrow> nat) \<Rightarrow> string \<Rightarrow> error + (task list \<times> bool)" where
  "generate_tasks_from_workload_name log10_big name =
     (case parse_workload_name name of
        Inl e \<Rightarrow> Inl e
      | Inr (action, file_size_str, num_files, files_on_disk) \<Rightarrow>
          (case size_from_str file_size_str of
             Inl e \<Rightarrow> Inl e
           | Inr file_size \<Rightarrow>
               Inr (map (make_task log10_big action file_size_str num_files file_size)
                      [0..<nat num_files],
                    files_on_disk)))"

section \<open>PayloadParser: \<^verbatim>\<open>parse_payload\<close>\<close>

text \<open>
  What \<^verbatim>\<open>json.load\<close> returns. A JSON object is the list of its members in the order of
  the document, with distinct names. Numbers are integers: a number with a fraction or an
  exponent is outside the model.
\<close>

datatype json =
    JNull
  | JBool bool
  | JInt int
  | JStr string
  | JArr "json list"
  | JObj "(string \<times> json) list"

text \<open>
  The file system as \<^verbatim>\<open>parse_payload\<close> sees it: a path does not exist (\<open>None\<close>), cannot
  be opened, does not hold JSON, or holds a document.
\<close>

datatype payload_file = Unreadable | NotJson | Json json

text \<open>Python's truth test and \<^verbatim>\<open>a and b\<close>, which returns one of its operands.\<close>

fun truthy :: "json \<Rightarrow> bool" where
  "truthy JNull = False"
| "truthy (JBool b) = b"
| "truthy (JInt n) = (n \<noteq> 0)"
| "truthy (JStr s) = (s \<noteq> [])"
| "truthy (JArr xs) = (xs \<noteq> [])"
| "truthy (JObj kvs) = (kvs \<noteq> [])"

definition py_and :: "json \<Rightarrow> json \<Rightarrow> json" where
  "py_and a b = (if truthy a then b else a)"

text \<open>
  \<^verbatim>\<open>repr\<close> of a string: between apostrophes, or between double quotes when the string has
  an apostrophe and no double quote; the backslash and the chosen quote are escaped, tab,
  line feed and carriage return are written \<^verbatim>\<open>\t\<close>, \<^verbatim>\<open>\n\<close>, \<^verbatim>\<open>\r\<close>, and a character
  that is not printable (below 32, 127 to 160, 173) is written \<^verbatim>\<open>\xhh\<close>.
\<close>

definition hex_digit :: "int \<Rightarrow> char" where
  "hex_digit d = (if d < 10 then char_of (48 + d) else char_of (87 + d))"

definition repr_char :: "char \<Rightarrow> char \<Rightarrow> string" where
  "repr_char quote c =
     (if c = quote \<or> c = CHR 0x5C then [CHR 0x5C, c]
      else if c = CHR 0x09 then [CHR 0x5C, CHR ''t'']
      else if c = CHR 0x0A then [CHR 0x5C, CHR ''n'']
      else if c = CHR 0x0D then [CHR 0x5C, CHR ''r'']
      else if (of_char c :: int) < 32 \<or> (of_char c :: int) = 127
              \<or> (128 \<le> (of_char c :: int) \<and> (of_char c :: int) \<le> 160)
              \<or> (of_char c :: int) = 173
      then [CHR 0x5C, CHR ''x'', hex_digit ((of_char c :: int) div 16),
            hex_digit ((of_char c :: int) mod 16)]
      else [c])"

definition repr_str :: "string \<Rightarrow> string" where
  "repr_str s =
     (let quote = (if CHR 0x27 \<in> set s \<and> CHR 0x22 \<notin> set s then CHR 0x22 else CHR 0x27)
      in quote # concat (map (repr_char quote) s) @ [quote])"

text \<open>\<^verbatim>\<open>repr(v)\<close> for a value read from JSON, as \<^verbatim>\<open>str\<close> of a list or a dictionary uses it.\<close>

fun py_repr :: "json \<Rightarrow> string" where
  "py_repr JNull = ''None''"
| "py_repr (JBool b) = (if b then ''True'' else ''False'')"
| "py_repr (JInt n) = py_str_int n"
| "py_repr (JStr s) = repr_str s"
| "py_repr (JArr xs) = ''['' @ join '', '' (map py_repr xs) @ '']''"
| "py_repr (JObj kvs) =
     ''{'' @ join '', '' (map (\<lambda>kv. repr_str (fst kv) @ '': '' @ py_repr (snd kv)) kvs) @ ''}''"

text \<open>\<^verbatim>\<open>f"{v}"\<close>, that is \<^verbatim>\<open>str(v)\<close>: a string as it is, any other value as \<^verbatim>\<open>repr\<close>.\<close>

definition py_str :: "json \<Rightarrow> string" where
  "py_str v = (case v of JStr s \<Rightarrow> s | _ \<Rightarrow> py_repr v)"

text \<open>
  The elements that \<^verbatim>\<open>list.extend(v)\<close> appends: the elements of a list, the characters of
  a string, the keys of a dictionary; the other values are not iterable.
\<close>

fun py_iter :: "json \<Rightarrow> error + json list" where
  "py_iter (JArr xs) = Inr xs"
| "py_iter (JStr s) = Inr (map (\<lambda>c. JStr [c]) s)"
| "py_iter (JObj kvs) = Inr (map (\<lambda>kv. JStr (fst kv)) kvs)"
| "py_iter v = Inl TypeError"

text \<open>\<^verbatim>\<open>len(v)\<close>.\<close>

fun py_len :: "json \<Rightarrow> error + nat" where
  "py_len (JArr xs) = Inr (length xs)"
| "py_len (JStr s) = Inr (length s)"
| "py_len (JObj kvs) = Inr (length kvs)"
| "py_len v = Inl TypeError"

definition task_dict :: "task \<Rightarrow> json" where
  "task_dict t =
     JObj [(''action'', JStr (task_action t)), (''key'', JStr (task_key t)),
           (''size'', JInt (task_size t))]"

definition VERSION :: int where
  "VERSION = 2"

definition DEFAULT_MAX_REPEAT_COUNT :: int where
  "DEFAULT_MAX_REPEAT_COUNT = 10"

definition DEFAULT_MAX_REPEAT_SECS :: int where
  "DEFAULT_MAX_REPEAT_SECS = 600"

text \<open>The dictionary that both list forms of the payload build.\<close>

definition workload_dict :: "json \<Rightarrow> json list \<Rightarrow> json" where
  "workload_dict files_on_disk all_tasks =
     JObj [(''version'', JInt VERSION),
           (''filesOnDisk'', files_on_disk),
           (''checksum'', JNull),
           (''maxRepeatCount'', JInt DEFAULT_MAX_REPEAT_COUNT),
           (''maxRepeatSecs'', JInt DEFAULT_MAX_REPEAT_SECS),
           (''tasks'', JArr all_tasks)]"

text \<open>
  The loop over the elements of a JSON array, with the accumulators \<^verbatim>\<open>all_tasks\<close> and
  \<^verbatim>\<open>files_on_disk\<close>. An element that is not a dictionary raises \<^verbatim>\<open>TypeError\<close>, at the
  membership test or at the first subscript.
\<close>

fun array_items ::
  "(int \<Rightarrow> nat) \<Rightarrow> json list \<Rightarrow> json list \<Rightarrow> json \<Rightarrow> error + (json list \<times> json)" where
  "array_items log10_big [] all_tasks files_on_disk = Inr (all_tasks, files_on_disk)"
| "array_items log10_big (JObj item # rest) all_tasks files_on_disk =
     (case map_of item ''tasks'' of
        Some ts \<Rightarrow>
          (case py_iter ts of
             Inl e \<Rightarrow> Inl e
           | Inr tasks \<Rightarrow>
               array_items log10_big rest (all_tasks @ tasks)
                 (case map_of item ''filesOnDisk'' of
                    Some v \<Rightarrow> py_and files_on_disk v
                  | None \<Rightarrow> files_on_disk))
      | None \<Rightarrow>
          (case map_of item ''action'' of
             None \<Rightarrow> Inl (KeyError ''action'')
           | Some action \<Rightarrow>
          (case map_of item ''fileSize'' of
             None \<Rightarrow> Inl (KeyError ''fileSize'')
           | Some file_size_str \<Rightarrow>
          (case map_of item ''numFiles'' of
             None \<Rightarrow> Inl (KeyError ''numFiles'')
           | Some num_files \<Rightarrow>
          (case generate_tasks_from_workload_name log10_big
                  (py_str action @ ''-'' @ py_str file_size_str @ ''-'' @ py_str num_files @ ''x'') of
             Inl e \<Rightarrow> Inl e
           | Inr (tasks, _) \<Rightarrow>
               array_items log10_big rest (all_tasks @ map task_dict tasks)
                 (case map_of item ''filesOnDisk'' of
                    Some v \<Rightarrow> v
                  | None \<Rightarrow> JBool True))))))"
| "array_items log10_big (item # rest) all_tasks files_on_disk = Inl TypeError"

text \<open>The loop over workload names.\<close>

fun name_items ::
  "(int \<Rightarrow> nat) \<Rightarrow> string list \<Rightarrow> task list \<Rightarrow> bool \<Rightarrow> error + (task list \<times> bool)" where
  "name_items log10_big [] all_tasks files_on_disk = Inr (all_tasks, files_on_disk)"
| "name_items log10_big (name # rest) all_tasks files_on_disk =
     (case generate_tasks_from_workload_name log10_big name of
        Inl e \<Rightarrow> Inl e
      | Inr (tasks, fod) \<Rightarrow>
          name_items log10_big rest (all_tasks @ tasks) (files_on_disk \<and> fod))"

text \<open>
  The end of \<^verbatim>\<open>parse_payload\<close>: the two log calls evaluate
  \<^verbatim>\<open>len(workload['tasks'])\<close> and \<^verbatim>\<open>workload['filesOnDisk']\<close> whether or not the lines are
  printed, then the pair is returned. The text that \<^verbatim>\<open>log\<close> prints is not modelled.
\<close>

definition finish_payload :: "(string \<times> json) list \<Rightarrow> error + (json \<times> json)" where
  "finish_payload workload =
     (case map_of workload ''tasks'' of
        None \<Rightarrow> Inl (KeyError ''tasks'')
      | Some ts \<Rightarrow>
          (case py_len ts of
             Inl e \<Rightarrow> Inl e
           | Inr _ \<Rightarrow>
               (case map_of workload ''filesOnDisk'' of
                  None \<Rightarrow> Inl (KeyError ''filesOnDisk'')
                | Some fod \<Rightarrow> Inr (JObj workload, fod))))"

definition members :: "json \<Rightarrow> (string \<times> json) list" where
  "members v = (case v of JObj kvs \<Rightarrow> kvs | _ \<Rightarrow> [])"

text \<open>
  \<^verbatim>\<open>str(Path(p))\<close> on a POSIX system: the root is \<^verbatim>\<open>//\<close> for exactly two leading
  slashes and \<^verbatim>\<open>/\<close> for any other number of them; empty components and components
  \<^verbatim>\<open>.\<close> are dropped; a path with nothing left is \<^verbatim>\<open>.\<close>.
\<close>

definition path_str :: "string \<Rightarrow> string" where
  "path_str p =
     (let root = (if take 2 p = ''//'' \<and> take 3 p \<noteq> ''///'' then ''//''
                  else if take 1 p = ''/'' then ''/'' else []);
          parts = filter (\<lambda>c. c \<noteq> [] \<and> c \<noteq> ''.'') (split p CHR ''/'')
      in if root = [] \<and> parts = [] then ''.'' else root @ join ''/'' parts)"

definition parse_payload ::
  "(int \<Rightarrow> nat) \<Rightarrow> (string \<Rightarrow> payload_file option) \<Rightarrow> string list \<Rightarrow> error + (json \<times> json)" where
  "parse_payload log10_big fs payload_args =
     (if length payload_args = 1 \<and> endswith (payload_args ! 0) ''.json''
      then
        (let json_path = path_str (payload_args ! 0)
         in case fs json_path of
              None \<Rightarrow> Inl (Exception (''Payload file not found: '' @ json_path))
            | Some Unreadable \<Rightarrow> Inl (OSError json_path)
            | Some NotJson \<Rightarrow> Inl JSONDecodeError
            | Some (Json (JArr items)) \<Rightarrow>
                (case array_items log10_big items [] (JBool True) of
                   Inl e \<Rightarrow> Inl e
                 | Inr (all_tasks, files_on_disk) \<Rightarrow>
                     finish_payload (members (workload_dict files_on_disk all_tasks)))
            | Some (Json (JObj workload)) \<Rightarrow> finish_payload workload
            | Some (Json _) \<Rightarrow> Inl AttributeError)
      else
        (case name_items log10_big payload_args [] True of
           Inl e \<Rightarrow> Inl e
         | Inr (all_tasks, files_on_disk) \<Rightarrow>
             finish_payload (members (workload_dict (JBool files_on_disk) (map task_dict all_tasks)))))"

section \<open>MetricsExtractor: \<^verbatim>\<open>parse_metrics\<close>\<close>

text \<open>
  The four patterns are sequences of literal text, \<^verbatim>\<open>(\d+)\<close>, \<^verbatim>\<open>\s+\<close> and
  \<^verbatim>\<open>([\d.]+)\<close>. In each of them a repeated class is followed by something that no
  character of the class can start (white space after digits, a letter after white space),
  so the greedy match of the class, the longest run, is the only one that can succeed and
  the matcher needs no backtracking. \<^verbatim>\<open>re.search\<close> takes the leftmost position at which
  the pattern matches. \<open>match_here\<close> returns the captured groups.
\<close>

datatype re_item = Lit string | Digits | Spaces | Number

definition is_space_re :: "char \<Rightarrow> bool" where
  "is_space_re c \<longleftrightarrow>
     c \<in> set [CHR 0x09, CHR 0x0A, CHR 0x0B, CHR 0x0C, CHR 0x0D, CHR 0x1C, CHR 0x1D, CHR 0x1E,
              CHR 0x1F, CHR 0x20, CHR 0x85, CHR 0xA0]"

definition is_number_char :: "char \<Rightarrow> bool" where
  "is_number_char c \<longleftrightarrow> is_digit c \<or> c = CHR ''.''"

fun match_here :: "re_item list \<Rightarrow> string \<Rightarrow> string list option" where
  "match_here [] s = Some []"
| "match_here (Lit l # r) s =
     (if take (length l) s = l then match_here r (drop (length l) s) else None)"
| "match_here (Digits # r) s =
     (if takeWhile is_digit s = [] then None
      else map_option (Cons (takeWhile is_digit s)) (match_here r (dropWhile is_digit s)))"
| "match_here (Spaces # r) s =
     (if takeWhile is_space_re s = [] then None
      else match_here r (dropWhile is_space_re s))"
| "match_here (Number # r) s =
     (if takeWhile is_number_char s = [] then None
      else map_option (Cons (takeWhile is_number_char s))
             (match_here r (dropWhile is_number_char s)))"

fun re_search :: "re_item list \<Rightarrow> string \<Rightarrow> string list option" where
  "re_search p [] = match_here p []"
| "re_search p (c # cs) =
     (case match_here p (c # cs) of Some groups \<Rightarrow> Some groups | None \<Rightarrow> re_search p cs)"

definition run_re :: "re_item list" where
  "run_re = [Lit ''Run:'', Digits, Spaces, Lit ''Secs:'', Number, Spaces, Lit ''Gb/s:'', Number]"

definition throughput_re :: "re_item list" where
  "throughput_re =
     [Lit ''Overall Throughput (Gb/s)'', Spaces, Lit ''Median:'', Number, Spaces,
      Lit ''Mean:'', Number, Spaces, Lit ''Min:'', Number, Spaces, Lit ''Max:'', Number]"

definition duration_re :: "re_item list" where
  "duration_re =
     [Lit ''Overall Duration (Secs)'', Spaces, Lit ''Median:'', Number, Spaces,
      Lit ''Mean:'', Number, Spaces, Lit ''Min:'', Number, Spaces, Lit ''Max:'', Number]"

definition rss_re :: "re_item list" where
  "rss_re = [Lit ''Peak RSS:'', Number, Spaces, Lit ''MiB'']"

text \<open>
  \<^verbatim>\<open>float(s)\<close> for a group matched by \<^verbatim>\<open>[\d.]+\<close>. Such a string is a number for Python
  when it has a digit and at most one dot; otherwise \<^verbatim>\<open>float\<close> raises
  \<^verbatim>\<open>ValueError\<close>. The double itself is not modelled: the type \<open>'f\<close> stands for Python's
  floats and \<open>conv\<close> for the value that \<^verbatim>\<open>float\<close> gives a well-formed string.
\<close>

definition float_literal_ok :: "string \<Rightarrow> bool" where
  "float_literal_ok s \<longleftrightarrow>
     filter is_digit s \<noteq> [] \<and> length (filter (\<lambda>c. c = CHR ''.'') s) \<le> 1"

definition py_float :: "(string \<Rightarrow> 'f) \<Rightarrow> string \<Rightarrow> error + 'f" where
  "py_float conv s = (if float_literal_ok s then Inr (conv s) else Inl ValueError)"

record 'f run =
  run_no :: int
  secs :: 'f
  gbps :: 'f

record 'f metrics =
  runs :: "'f run list"
  throughput_median :: "'f option"
  throughput_mean :: "'f option"
  throughput_min :: "'f option"
  throughput_max :: "'f option"
  duration_median :: "'f option"
  duration_mean :: "'f option"
  duration_min :: "'f option"
  duration_max :: "'f option"
  peak_rss :: "'f option"

definition empty_metrics :: "'f metrics" where
  "empty_metrics =
     \<lparr>runs = [], throughput_median = None, throughput_mean = None, throughput_min = None,
      throughput_max = None, duration_median = None, duration_mean = None,
      duration_min = None, duration_max = None, peak_rss = None\<rparr>"

text \<open>The four blocks of the loop body, each on the metrics the block before left.\<close>

definition run_line :: "(string \<Rightarrow> 'f) \<Rightarrow> string \<Rightarrow> 'f metrics \<Rightarrow> error + 'f metrics" where
  "run_line conv line m =
     (case re_search run_re line of
        Some [g1, g2, g3] \<Rightarrow>
          (case py_int g1 of Inl e \<Rightarrow> Inl e | Inr run_num \<Rightarrow>
          (case py_float conv g2 of Inl e \<Rightarrow> Inl e | Inr s \<Rightarrow>
          (case py_float conv g3 of Inl e \<Rightarrow> Inl e | Inr g \<Rightarrow>
             Inr (m\<lparr>runs := runs m @ [\<lparr>run_no = run_num, secs = s, gbps = g\<rparr>]\<rparr>))))
      | _ \<Rightarrow> Inr m)"

definition throughput_line :: "(string \<Rightarrow> 'f) \<Rightarrow> string \<Rightarrow> 'f metrics \<Rightarrow> error + 'f metrics" where
  "throughput_line conv line m =
     (case re_search throughput_re line of
        Some [g1, g2, g3, g4] \<Rightarrow>
          (case py_float conv g1 of Inl e \<Rightarrow> Inl e | Inr a \<Rightarrow>
          (case py_float conv g2 of Inl e \<Rightarrow> Inl e | Inr b \<Rightarrow>
          (case py_float conv g3 of Inl e \<Rightarrow> Inl e | Inr c \<Rightarrow>
          (case py_float conv g4 of Inl e \<Rightarrow> Inl e | Inr d \<Rightarrow>
             Inr (m\<lparr>throughput_median := Some a, throughput_mean := Some b,
                    throughput_min := Some c, throughput_max := Some d\<rparr>)))))
      | _ \<Rightarrow> Inr m)"

definition duration_line :: "(string \<Rightarrow> 'f) \<Rightarrow> string \<Rightarrow> 'f metrics \<Rightarrow> error + 'f metrics" where
  "duration_line conv line m =
     (case re_search duration_re line of
        Some [g1, g2, g3, g4] \<Rightarrow>
          (case py_float conv g1 of Inl e \<Rightarrow> Inl e | Inr a \<Rightarrow>
          (case py_float conv g2 of Inl e \<Rightarrow> Inl e | Inr b \<Rightarrow>
          (case py_float conv g3 of Inl e \<Rightarrow> Inl e | Inr c \<Rightarrow>
          (case py_float conv g4 of Inl e \<Rightarrow> Inl e | Inr d \<Rightarrow>
             Inr (m\<lparr>duration_median := Some a, duration_mean := Some b,
                    duration_min := Some c, duration_max := Some d\<rparr>)))))
      | _ \<Rightarrow> Inr m)"

definition rss_line :: "(string \<Rightarrow> 'f) \<Rightarrow> string \<Rightarrow> 'f metrics \<Rightarrow> error + 'f metrics" where
  "rss_line conv line m =
     (case re_search rss_re line of
        Some [g1] \<Rightarrow>
          (case py_float conv g1 of Inl e \<Rightarrow> Inl e | Inr a \<Rightarrow> Inr (m\<lparr>peak_rss := Some a\<rparr>))
      | _ \<Rightarrow> Inr m)"

definition metrics_line :: "(string \<Rightarrow> 'f) \<Rightarrow> string \<Rightarrow> 'f metrics \<Rightarrow> error + 'f metrics" where
  "metrics_line conv line m =
     (case run_line conv line m of Inl e \<Rightarrow> Inl e | Inr m1 \<Rightarrow>
     (case throughput_line conv line m1 of Inl e \<Rightarrow> Inl e | Inr m2 \<Rightarrow>
     (case duration_line conv line m2 of Inl e \<Rightarrow> Inl e | Inr m3 \<Rightarrow>
        rss_line conv line m3)))"

fun metrics_lines :: "(string \<Rightarrow> 'f) \<Rightarrow> string list \<Rightarrow> 'f metrics \<Rightarrow> error + 'f metrics" where
  "metrics_lines conv [] m = Inr m"
| "metrics_lines conv (line # rest) m =
     (case metrics_line conv line m of Inl e \<Rightarrow> Inl e | Inr m' \<Rightarrow> metrics_lines conv rest m')"

definition parse_metrics :: "(string \<Rightarrow> 'f) \<Rightarrow> string \<Rightarrow> error + 'f metrics" where
  "parse_metrics conv output = metrics_lines conv (split output nl) empty_metrics"

section \<open>ComparisonRenderer: \<^verbatim>\<open>format_comparison_table\<close>\<close>

text \<open>
  The table is drawn with box characters, which are code points above 255, so the text of
  the table is a list of code points. \<^verbatim>\<open>f"{s:<w}"\<close> pads \<open>s\<close> with blanks on the right up
  to the width \<open>w\<close> and never cuts it. \<^verbatim>\<open>f"{x:<w.2f}"\<close> pads the rendering of the float
  \<open>x\<close> with two decimals, which is the parameter \<open>fmt2\<close>; with \<^verbatim>\<open>None\<close> for \<open>x\<close> it
  raises \<^verbatim>\<open>TypeError\<close>.
\<close>

type_synonym utext = "int list"

definition u :: "string \<Rightarrow> utext" where
  "u s = map of_char s"

definition ljust :: "nat \<Rightarrow> utext \<Rightarrow> utext" where
  "ljust w t = t @ replicate (w - length t) 32"

definition bar :: int where
  "bar = 0x2502"

definition dash :: int where
  "dash = 0x2500"

definition tee :: int where
  "tee = 0x252C"

definition row :: "nat \<Rightarrow> nat \<Rightarrow> utext \<Rightarrow> utext \<Rightarrow> utext \<Rightarrow> utext" where
  "row metric_col_width value_col_width a b c =
     [bar, 32] @ ljust (metric_col_width - 2) a @ [32, bar, 32]
       @ ljust (value_col_width - 2) b @ [32, bar, 32]
       @ ljust (value_col_width - 2) c @ [32, bar]"

definition format_2f :: "('f \<Rightarrow> string) \<Rightarrow> 'f option \<Rightarrow> error + utext" where
  "format_2f fmt2 v = (case v of None \<Rightarrow> Inl TypeError | Some x \<Rightarrow> Inr (u (fmt2 x)))"

definition float_row ::
  "('f \<Rightarrow> string) \<Rightarrow> nat \<Rightarrow> nat \<Rightarrow> string \<Rightarrow> 'f option \<Rightarrow> 'f option \<Rightarrow> error + utext" where
  "float_row fmt2 metric_col_width value_col_width label v1 v2 =
     (case format_2f fmt2 v1 of Inl e \<Rightarrow> Inl e | Inr a \<Rightarrow>
     (case format_2f fmt2 v2 of Inl e \<Rightarrow> Inl e | Inr b \<Rightarrow>
        Inr (row metric_col_width value_col_width (u label) a b)))"

text \<open>The lines appended one after the other; the first that raises ends the function.\<close>

fun appended :: "(error + utext) list \<Rightarrow> error + utext list" where
  "appended [] = Inr []"
| "appended (Inl e # rest) = Inl e"
| "appended (Inr l # rest) = (case appended rest of Inl e \<Rightarrow> Inl e | Inr ls \<Rightarrow> Inr (l # ls))"

text \<open>
  The width of the two value columns, \<^verbatim>\<open>max(len(label1), len(label2), 15)\<close>, and the
  lines before and after the three sections.
\<close>

definition value_col_width :: "string \<Rightarrow> string \<Rightarrow> nat" where
  "value_col_width label1 label2 = max (max (length label1) (length label2)) 15"

definition sep :: "nat \<Rightarrow> nat \<Rightarrow> utext" where
  "sep mw vw = replicate mw dash @ [tee] @ replicate vw dash @ [tee] @ replicate vw dash"

definition table_head :: "nat \<Rightarrow> nat \<Rightarrow> string \<Rightarrow> string \<Rightarrow> utext list" where
  "table_head mw vw label1 label2 =
     [[],
      u (''Comparing: '' @ label1 @ '' vs '' @ label2),
      [],
      [0x250C] @ butlast (tl (sep mw vw)) @ [0x2510],
      row mw vw (u ''Metric'') (u label1) (u label2),
      [0x251C] @ butlast (tl (sep mw vw)) @ [0x2524]]"

definition table_foot :: "nat \<Rightarrow> nat \<Rightarrow> utext list" where
  "table_foot mw vw = [[0x2514] @ butlast (tl (sep mw vw)) @ [0x2518], []]"

text \<open>
  The lines under the title of the throughput section and of the duration section: the
  code of the two sections differs in the dictionary keys only. The test looks at the two
  medians.
\<close>

definition aggregate_rows ::
  "('f \<Rightarrow> string) \<Rightarrow> nat \<Rightarrow> nat \<Rightarrow> 'f option \<Rightarrow> 'f option \<Rightarrow> 'f option \<Rightarrow> 'f option
     \<Rightarrow> 'f option \<Rightarrow> 'f option \<Rightarrow> 'f option \<Rightarrow> 'f option \<Rightarrow> (error + utext) list" where
  "aggregate_rows fmt2 mw vw median1 mean1 min1 max1 median2 mean2 min2 max2 =
     (if median1 \<noteq> None \<and> median2 \<noteq> None
      then [float_row fmt2 mw vw ''  Median'' median1 median2,
            float_row fmt2 mw vw ''  Mean'' mean1 mean2,
            float_row fmt2 mw vw ''  Min'' min1 min2,
            float_row fmt2 mw vw ''  Max'' max1 max2]
      else [Inr (row mw vw (u ''  (metrics not available)'') [] [])])"

definition peak_rss_rows ::
  "('f \<Rightarrow> string) \<Rightarrow> nat \<Rightarrow> nat \<Rightarrow> 'f option \<Rightarrow> 'f option \<Rightarrow> (error + utext) list" where
  "peak_rss_rows fmt2 mw vw rss1 rss2 =
     (if rss1 \<noteq> None \<and> rss2 \<noteq> None
      then [float_row fmt2 mw vw ''Peak RSS (MiB)'' rss1 rss2]
      else [Inr (row mw vw (u ''Peak RSS (MiB)'')
                   (case rss1 of Some x \<Rightarrow> u (fmt2 x) | None \<Rightarrow> u ''N/A'')
                   (case rss2 of Some x \<Rightarrow> u (fmt2 x) | None \<Rightarrow> u ''N/A''))])"

definition table_lines ::
  "('f \<Rightarrow> string) \<Rightarrow> string \<Rightarrow> string \<Rightarrow> 'f metrics \<Rightarrow> string \<Rightarrow> string \<Rightarrow> 'f metrics
     \<Rightarrow> error + utext list" where
  "table_lines fmt2 client1_name client1_branch metrics1 client2_name client2_branch metrics2 =
     (let label1 = client1_name @ '':'' @ client1_branch;
          label2 = client2_name @ '':'' @ client2_branch;
          mw = 25;
          vw = value_col_width label1 label2
      in appended
          (map Inr (table_head mw vw label1 label2)
           @ [Inr (row mw vw (u ''Throughput (Gb/s)'') [] [])]
           @ aggregate_rows fmt2 mw vw
               (throughput_median metrics1) (throughput_mean metrics1)
               (throughput_min metrics1) (throughput_max metrics1)
               (throughput_median metrics2) (throughput_mean metrics2)
               (throughput_min metrics2) (throughput_max metrics2)
           @ [Inr (row mw vw (u ''Duration (Secs)'') [] [])]
           @ aggregate_rows fmt2 mw vw
               (duration_median metrics1) (duration_mean metrics1)
               (duration_min metrics1) (duration_max metrics1)
               (duration_median metrics2) (duration_mean metrics2)
               (duration_min metrics2) (duration_max metrics2)
           @ peak_rss_rows fmt2 mw vw (peak_rss metrics1) (peak_rss metrics2)
           @ map Inr (table_foot mw vw)))"

text \<open>\<^verbatim>\<open>'\n'.join(lines)\<close>.\<close>

fun join_lines :: "utext list \<Rightarrow> utext" where
  "join_lines [] = []"
| "join_lines [l] = l"
| "join_lines (l # k # ls) = l @ [10] @ join_lines (k # ls)"

definition format_comparison_table ::
  "('f \<Rightarrow> string) \<Rightarrow> string \<Rightarrow> string \<Rightarrow> 'f metrics \<Rightarrow> string \<Rightarrow> string \<Rightarrow> 'f metrics
     \<Rightarrow> error + utext" where
  "format_comparison_table fmt2 client1_name client1_branch metrics1
       client2_name client2_branch metrics2 =
     (case table_lines fmt2 client1_name client1_branch metrics1
             client2_name client2_branch metrics2 of
        Inl e \<Rightarrow> Inl e
      | Inr lines \<Rightarrow> Inr (join_lines lines))"

subsection \<open>The table as the specification describes it\<close>

text \<open>
  In the data model of the specification an aggregate is a quadruple of median, mean,
  minimum and maximum that is present as a whole or absent as a whole. \<open>metric_set\<close> says
  so of the eight fields of the dictionary, and \<open>throughput_aggregate\<close> and
  \<open>duration_aggregate\<close> read the quadruples.
\<close>

definition quadruple ::
  "'f option \<Rightarrow> 'f option \<Rightarrow> 'f option \<Rightarrow> 'f option \<Rightarrow> ('f \<times> 'f \<times> 'f \<times> 'f) option" where
  "quadruple a b c d =
     (case (a, b, c, d) of
        (Some a', Some b', Some c', Some d') \<Rightarrow> Some (a', b', c', d')
      | _ \<Rightarrow> None)"

definition whole :: "'f option \<Rightarrow> 'f option \<Rightarrow> 'f option \<Rightarrow> 'f option \<Rightarrow> bool" where
  "whole a b c d \<longleftrightarrow>
     (a = None \<and> b = None \<and> c = None \<and> d = None)
     \<or> (a \<noteq> None \<and> b \<noteq> None \<and> c \<noteq> None \<and> d \<noteq> None)"

definition throughput_aggregate :: "'f metrics \<Rightarrow> ('f \<times> 'f \<times> 'f \<times> 'f) option" where
  "throughput_aggregate m =
     quadruple (throughput_median m) (throughput_mean m) (throughput_min m) (throughput_max m)"

definition duration_aggregate :: "'f metrics \<Rightarrow> ('f \<times> 'f \<times> 'f \<times> 'f) option" where
  "duration_aggregate m =
     quadruple (duration_median m) (duration_mean m) (duration_min m) (duration_max m)"

definition metric_set :: "'f metrics \<Rightarrow> bool" where
  "metric_set m \<longleftrightarrow>
     whole (throughput_median m) (throughput_mean m) (throughput_min m) (throughput_max m)
     \<and> whole (duration_median m) (duration_mean m) (duration_min m) (duration_max m)"

text \<open>
  The table as described, written without the functions above. A row has the label in a
  cell of 23 characters and each value in a cell of the column width less 2, all padded
  with blanks on the right; a border has 24 dashes, a joint, as many dashes as the column
  is wide, a joint, and one dash fewer. The column is as wide as the longer label, and at
  least 15.
\<close>

definition described_row :: "nat \<Rightarrow> string \<Rightarrow> string \<Rightarrow> string \<Rightarrow> utext" where
  "described_row vw label left right =
     [0x2502, 0x20] @ map of_char label @ replicate (23 - length label) 0x20
     @ [0x20, 0x2502, 0x20] @ map of_char left @ replicate (vw - 2 - length left) 0x20
     @ [0x20, 0x2502, 0x20] @ map of_char right @ replicate (vw - 2 - length right) 0x20
     @ [0x20, 0x2502]"

definition described_border :: "int \<Rightarrow> int \<Rightarrow> nat \<Rightarrow> utext" where
  "described_border left right vw =
     [left] @ replicate 24 0x2500 @ [0x252C] @ replicate vw 0x2500 @ [0x252C]
     @ replicate (vw - 1) 0x2500 @ [right]"

definition described_width :: "string \<Rightarrow> string \<Rightarrow> nat" where
  "described_width label1 label2 = max 15 (max (length label1) (length label2))"

text \<open>
  A section as described: the title, then the four rows with the two-decimal renderings
  when both sides have the aggregate, one row \<^verbatim>\<open>(metrics not available)\<close> otherwise. The
  peak memory row writes \<^verbatim>\<open>N/A\<close> for the side that lacks the value.
\<close>

definition described_section ::
  "('f \<Rightarrow> string) \<Rightarrow> nat \<Rightarrow> string \<Rightarrow> ('f \<times> 'f \<times> 'f \<times> 'f) option
     \<Rightarrow> ('f \<times> 'f \<times> 'f \<times> 'f) option \<Rightarrow> utext list" where
  "described_section fmt2 vw title q1 q2 =
     described_row vw title [] []
     # (case (q1, q2) of
          (Some (median1, mean1, min1, max1), Some (median2, mean2, min2, max2)) \<Rightarrow>
            [described_row vw ''  Median'' (fmt2 median1) (fmt2 median2),
             described_row vw ''  Mean'' (fmt2 mean1) (fmt2 mean2),
             described_row vw ''  Min'' (fmt2 min1) (fmt2 min2),
             described_row vw ''  Max'' (fmt2 max1) (fmt2 max2)]
        | _ \<Rightarrow> [described_row vw ''  (metrics not available)'' [] []])"

definition described_peak_row ::
  "('f \<Rightarrow> string) \<Rightarrow> nat \<Rightarrow> 'f option \<Rightarrow> 'f option \<Rightarrow> utext" where
  "described_peak_row fmt2 vw rss1 rss2 =
     described_row vw ''Peak RSS (MiB)''
       (case rss1 of Some x \<Rightarrow> fmt2 x | None \<Rightarrow> ''N/A'')
       (case rss2 of Some x \<Rightarrow> fmt2 x | None \<Rightarrow> ''N/A'')"

definition described_table ::
  "('f \<Rightarrow> string) \<Rightarrow> string \<Rightarrow> string \<Rightarrow> 'f metrics \<Rightarrow> 'f metrics \<Rightarrow> utext list" where
  "described_table fmt2 label1 label2 metrics1 metrics2 =
     (let vw = described_width label1 label2
      in [[],
          map of_char (''Comparing: '' @ label1 @ '' vs '' @ label2),
          [],
          described_border 0x250C 0x2510 vw,
          described_row vw ''Metric'' label1 label2,
          described_border 0x251C 0x2524 vw]
         @ described_section fmt2 vw ''Throughput (Gb/s)''
             (throughput_aggregate metrics1) (throughput_aggregate metrics2)
         @ described_section fmt2 vw ''Duration (Secs)''
             (duration_aggregate metrics1) (duration_aggregate metrics2)
         @ [described_peak_row fmt2 vw (peak_rss metrics1) (peak_rss metrics2),
            described_border 0x2514 0x2518 vw,
            []])"

section \<open>ClientOrchestrator and pipeline driver\<close>

text \<open>
  The external processes are the environment of the script. A process that the script
  starts is recorded by its kind and the arguments that vary:
  \<^item> \<open>PrepFiles bucket region workload_path\<close> is \<^verbatim>\<open>python3 prep-s3-files.py\<close>,
  \<^item> \<open>GitFetch repo_path\<close> is \<^verbatim>\<open>git fetch origin\<close> run in the repository,
  \<^item> \<open>GitCheckout repo_path branch\<close> is \<^verbatim>\<open>git checkout branch\<close> run in the repository,
  \<^item> \<open>ClearSh build_type\<close> and \<open>BuildSh build_type\<close> are \<^verbatim>\<open>clear.sh\<close> and \<^verbatim>\<open>build.sh\<close>
    with \<^verbatim>\<open>--client build_type\<close>,
  \<^item> \<open>Runner client_name workload_path bucket region throughput\<close> is the runner chosen
    by the client name, with these five positional arguments.

  What a process does is an outcome: \<^verbatim>\<open>subprocess.run\<close> raises an exception (the program
  cannot be started, or its captured output cannot be decoded), or the process ends with an
  exit code, its standard output and its standard error. The environment \<open>env\<close> gives the
  outcome of the \<open>i\<close>-th call of \<^verbatim>\<open>subprocess.run\<close>, counted from 0. A process that never
  ends is outside the model, and so is a failure of the script's own file operations
  (creating the files directory or the temporary file, changing directory, unlinking).
\<close>

datatype command =
    PrepFiles string string string
  | GitFetch string
  | GitCheckout string string
  | ClearSh string
  | BuildSh string
  | Runner string string string string string

datatype outcome = Raised error | Exited int string string

text \<open>A process that was started and ended with the exit code 0.\<close>

fun succeeded :: "outcome \<Rightarrow> bool" where
  "succeeded (Exited returncode so se) = (returncode = 0)"
| "succeeded (Raised e) = False"

text \<open>
  What the script itself prints. The lines of \<^verbatim>\<open>log\<close>, shown in verbose mode only, are
  left out of the model; the other writes to standard output are the echo of a runner's
  output and the comparison table, and the writes to standard error are echoed text and
  the line \<^verbatim>\<open>Error: ...\<close> of the handler in \<^verbatim>\<open>main\<close>, recorded with the exception it
  reports.
\<close>

datatype out_event = RunnerOutput string | Table utext

datatype err_event = Echo string | ErrorLine error

text \<open>
  The world of the script: the processes started so far, in order; what was printed to
  standard output and to standard error; the temporary file, which exists once
  \<^verbatim>\<open>main\<close> has opened it to dump the workload and until it is unlinked; and whether the
  working directory is the files directory.
\<close>

record world =
  spawned :: "command list"
  out :: "out_event list"
  err :: "err_event list"
  artifact :: "json option"
  in_files_dir :: bool

definition initial_world :: world where
  "initial_world = \<lparr>spawned = [], out = [], err = [], artifact = None, in_files_dir = False\<rparr>"

text \<open>
  \<^verbatim>\<open>run_command\<close> without capture: the exit code, or the exception of
  \<^verbatim>\<open>subprocess.run\<close>.
\<close>

definition run_command ::
  "(nat \<Rightarrow> outcome) \<Rightarrow> command \<Rightarrow> world \<Rightarrow> (error + int) \<times> world" where
  "run_command env cmd w =
     (case env (length (spawned w)) of
        Raised e \<Rightarrow> (Inl e, w\<lparr>spawned := spawned w @ [cmd]\<rparr>)
      | Exited returncode so se \<Rightarrow> (Inr returncode, w\<lparr>spawned := spawned w @ [cmd]\<rparr>))"

definition prep_files ::
  "(nat \<Rightarrow> outcome) \<Rightarrow> string \<Rightarrow> string \<Rightarrow> string \<Rightarrow> world \<Rightarrow> (error + unit) \<times> world" where
  "prep_files env workload_path bucket region w =
     (case run_command env (PrepFiles bucket region workload_path) w of
        (Inl e, w') \<Rightarrow> (Inl e, w')
      | (Inr returncode, w') \<Rightarrow>
          if returncode \<noteq> 0 then (Inl (Exception ''File preparation failed''), w')
          else (Inr (), w'))"

definition checkout_branch ::
  "(nat \<Rightarrow> outcome) \<Rightarrow> string \<Rightarrow> string \<Rightarrow> world \<Rightarrow> (error + unit) \<times> world" where
  "checkout_branch env repo_path branch w =
     (case run_command env (GitFetch repo_path) w of
        (Inl e, w') \<Rightarrow> (Inl e, w')
      | (Inr returncode, w') \<Rightarrow>
          if returncode \<noteq> 0 then (Inl (Exception (''Git fetch failed in '' @ repo_path)), w')
          else
            (case run_command env (GitCheckout repo_path branch) w' of
               (Inl e, w'') \<Rightarrow> (Inl e, w'')
             | (Inr returncode, w'') \<Rightarrow>
                 if returncode \<noteq> 0
                 then (Inl (Exception (''Git checkout failed for branch '' @ branch @ '' in ''
                              @ repo_path)), w'')
                 else (Inr (), w'')))"

definition python_clients :: "string list" where
  "python_clients = [''crt-python'', ''boto3-crt'', ''boto3-classic'', ''cli-crt'', ''cli-classic'']"

definition java_clients :: "string list" where
  "java_clients =
     [''crt-java'', ''sdk-java-client-crt'', ''sdk-java-client-classic'', ''sdk-java-tm-crt'',
      ''sdk-java-tm-classic'']"

definition get_build_type :: "string \<Rightarrow> error + string" where
  "get_build_type client_name =
     (if client_name = ''crt-c'' then Inr ''aws-c-s3''
      else if client_name \<in> set python_clients then Inr ''python''
      else if client_name \<in> set java_clients then Inr ''java''
      else if client_name = ''sdk-rust-tm'' then Inr ''rust''
      else Inl (Exception (''Unknown client: '' @ client_name)))"

text \<open>A failure of \<^verbatim>\<open>clear.sh\<close> only logs a warning.\<close>

definition rebuild_client ::
  "(nat \<Rightarrow> outcome) \<Rightarrow> string \<Rightarrow> world \<Rightarrow> (error + unit) \<times> world" where
  "rebuild_client env client_name w =
     (case get_build_type client_name of
        Inl e \<Rightarrow> (Inl e, w)
      | Inr build_type \<Rightarrow>
          (case run_command env (ClearSh build_type) w of
             (Inl e, w') \<Rightarrow> (Inl e, w')
           | (Inr _, w') \<Rightarrow>
               (case run_command env (BuildSh build_type) w' of
                  (Inl e, w'') \<Rightarrow> (Inl e, w'')
                | (Inr returncode, w'') \<Rightarrow>
                    if returncode \<noteq> 0
                    then (Inl (Exception (''Build failed for '' @ client_name)), w'')
                    else (Inr (), w''))))"

text \<open>
  \<^verbatim>\<open>run_benchmark\<close> changes to the files directory, chooses the runner by the client name
  and captures its output. In verbose mode the output is printed, and the error output
  too when it is not empty. On a non-zero exit code three prints go to standard error
  before the exception.
\<close>

definition run_benchmark ::
  "(nat \<Rightarrow> outcome) \<Rightarrow> string \<Rightarrow> string \<Rightarrow> string \<Rightarrow> string \<Rightarrow> string \<Rightarrow> bool \<Rightarrow> world
     \<Rightarrow> (error + string) \<times> world" where
  "run_benchmark env client_name workload_path bucket region throughput verbose w0 =
     (let w = w0\<lparr>in_files_dir := True\<rparr>
      in if \<not> (client_name = ''crt-c'' \<or> client_name \<in> set python_clients
                \<or> client_name \<in> set java_clients \<or> client_name = ''sdk-rust-tm'')
         then (Inl (Exception (''Unknown client: '' @ client_name)), w)
         else
           (let w1 = w\<lparr>spawned :=
                        spawned w @ [Runner client_name workload_path bucket region throughput]\<rparr>
            in case env (length (spawned w)) of
                 Raised e \<Rightarrow> (Inl e, w1)
               | Exited returncode so se \<Rightarrow>
                   (let w2 = (if verbose
                              then w1\<lparr>out := out w1 @ [RunnerOutput so],
                                      err := err w1 @ (if se \<noteq> [] then [Echo se] else [])\<rparr>
                              else w1)
                    in if returncode \<noteq> 0
                       then (Inl (Exception (''Benchmark failed for '' @ client_name)),
                             w2\<lparr>err := err w2
                                   @ [Echo (''Error running benchmark for '' @ client_name @ '':''),
                                      Echo so, Echo se]\<rparr>)
                       else (Inr so, w2))))"

text \<open>
  The steps of \<^verbatim>\<open>main\<close> for one client: check out, rebuild, run, parse the metrics.
\<close>

definition client_steps ::
  "(nat \<Rightarrow> outcome) \<Rightarrow> (string \<Rightarrow> 'f) \<Rightarrow> string \<Rightarrow> string \<Rightarrow> string \<Rightarrow> string \<Rightarrow> string
     \<Rightarrow> string \<Rightarrow> string \<Rightarrow> bool \<Rightarrow> world \<Rightarrow> (error + 'f metrics) \<times> world" where
  "client_steps env conv client branch repo workload_path bucket region throughput verbose w =
     (case checkout_branch env repo branch w of
        (Inl e, w1) \<Rightarrow> (Inl e, w1)
      | (Inr _, w1) \<Rightarrow>
          (case rebuild_client env client w1 of
             (Inl e, w2) \<Rightarrow> (Inl e, w2)
           | (Inr _, w2) \<Rightarrow>
               (case run_benchmark env client workload_path bucket region throughput verbose w2 of
                  (Inl e, w3) \<Rightarrow> (Inl e, w3)
                | (Inr output, w3) \<Rightarrow> (parse_metrics conv output, w3))))"

text \<open>The parsed command line.\<close>

record args =
  client1 :: string
  client1_branch :: string
  client1_repo :: string
  client2 :: string
  client2_branch :: string
  client2_repo :: string
  bucket :: string
  region :: string
  throughput :: string
  verbose :: string
  payload :: "string list"

text \<open>
  \<^verbatim>\<open>args.verbose.lower() == 'true'\<close>. Only the letters A to Z matter for the comparison
  with \<^verbatim>\<open>true\<close>.
\<close>

definition lower :: "string \<Rightarrow> string" where
  "lower s =
     map (\<lambda>c. if 65 \<le> (of_char c :: int) \<and> (of_char c :: int) \<le> 90
              then char_of ((of_char c :: int) + 32) else c) s"

text \<open>
  \<^verbatim>\<open>main\<close> returns the exit code of the process and the final world. The handler
  \<^verbatim>\<open>except Exception\<close> prints one line to standard error and exits with code 1. The
  parameters beside the command line are the file system \<open>fs\<close>, the environment \<open>env\<close>,
  the name \<open>workload_path\<close> that \<^verbatim>\<open>tempfile\<close> chooses, and the floats (\<open>conv\<close> and
  \<open>fmt2\<close>).
\<close>

text \<open>
  \<^verbatim>\<open>json.dump\<close> writes every integer as a string, which fails with \<^verbatim>\<open>ValueError\<close> for an
  integer of more than 4300 digits (a size such as 4300 digits times \<^verbatim>\<open>GiB\<close>).
\<close>

fun dumpable :: "json \<Rightarrow> bool" where
  "dumpable (JInt n) = (length (digits_of_int \<bar>n\<bar>) \<le> int_max_str_digits)"
| "dumpable (JArr xs) = list_all dumpable xs"
| "dumpable (JObj kvs) = list_all (\<lambda>kv. dumpable (snd kv)) kvs"
| "dumpable v = True"

definition handler :: "error \<Rightarrow> world \<Rightarrow> int \<times> world" where
  "handler e w = (1, w\<lparr>err := err w @ [ErrorLine e]\<rparr>)"

definition main ::
  "(int \<Rightarrow> nat) \<Rightarrow> (string \<Rightarrow> payload_file option) \<Rightarrow> (nat \<Rightarrow> outcome) \<Rightarrow> string
     \<Rightarrow> (string \<Rightarrow> 'f) \<Rightarrow> ('f \<Rightarrow> string) \<Rightarrow> args \<Rightarrow> int \<times> world" where
  "main log10_big fs env workload_path conv fmt2 a =
     (let v = (lower (verbose a) = ''true'')
      in case parse_payload log10_big fs (payload a) of
           Inl e \<Rightarrow> handler e initial_world
         | Inr (workload, files_on_disk) \<Rightarrow>
             if \<not> dumpable workload
             then handler ValueError (initial_world\<lparr>artifact := Some workload\<rparr>)
             else
             (case prep_files env workload_path (bucket a) (region a)
                     (initial_world\<lparr>artifact := Some workload\<rparr>) of
                (Inl e, w1) \<Rightarrow> handler e w1
              | (Inr _, w1) \<Rightarrow>
                  (case client_steps env conv (client1 a) (client1_branch a) (client1_repo a)
                          workload_path (bucket a) (region a) (throughput a) v w1 of
                     (Inl e, w2) \<Rightarrow> handler e w2
                   | (Inr metrics1, w2) \<Rightarrow>
                       (case client_steps env conv (client2 a) (client2_branch a)
                               (client2_repo a) workload_path (bucket a) (region a)
                               (throughput a) v w2 of
                          (Inl e, w3) \<Rightarrow> handler e w3
                        | (Inr metrics2, w3) \<Rightarrow>
                            (case format_comparison_table fmt2 (client1 a) (client1_branch a)
                                    metrics1 (client2 a) (client2_branch a) metrics2 of
                               Inl e \<Rightarrow> handler e w3
                             | Inr table \<Rightarrow>
                                 (0, w3\<lparr>out := out w3 @ [Table table],
                                         artifact := None\<rparr>))))))"

section \<open>Example inputs\<close>

text \<open>
  Inputs at which the theorems below are evaluated. In the examples a float is written as
  its text, so \<open>conv\<close> and \<open>fmt2\<close> are the identity. \<open>log10_fifteen\<close> is the integer part
  of \<^verbatim>\<open>math.log10\<close> at \<open>10\<^sup>1\<^sup>5 - 2\<close> and at \<open>10\<^sup>1\<^sup>5 - 1\<close>, where CPython returns
  \<^verbatim>\<open>15.0\<close>.
\<close>

definition log10_fifteen :: "int \<Rightarrow> nat" where
  "log10_fifteen n = 15"

definition no_files :: "string \<Rightarrow> payload_file option" where
  "no_files path = None"

definition one_file :: "string \<Rightarrow> json \<Rightarrow> string \<Rightarrow> payload_file option" where
  "one_file name document path = (if path = name then Some (Json document) else None)"

definition mixed_array :: json where
  "mixed_array =
     JArr [JObj [(''tasks'', JArr []), (''filesOnDisk'', JBool False)],
           JObj [(''action'', JStr ''upload''), (''fileSize'', JStr ''1MiB''),
                 (''numFiles'', JInt 1)]]"

definition all_exit_0 :: "nat \<Rightarrow> outcome" where
  "all_exit_0 i = Exited 0 [] []"

definition build2_fails :: "nat \<Rightarrow> outcome" where
  "build2_fails i = (if i = 9 then Exited 2 [] [] else Exited 0 [] [])"

definition example_args :: "string \<Rightarrow> string \<Rightarrow> args" where
  "example_args name1 name2 =
     \<lparr>client1 = name1, client1_branch = ''main'', client1_repo = ''repo1'',
      client2 = name2, client2_branch = ''dev'', client2_repo = ''repo2'',
      bucket = ''bucket'', region = ''us-west-2'', throughput = ''100.0'',
      verbose = ''false'', payload = [''upload-1MiB-1x'']\<rparr>"

definition run_unknown_first :: "int \<times> world" where
  "run_unknown_first =
     main log10_fifteen no_files all_exit_0 ''/tmp/w.json'' (id :: string \<Rightarrow> string) id
       (example_args ''foo'' ''crt-c'')"

definition run_unknown_second :: "int \<times> world" where
  "run_unknown_second =
     main log10_fifteen no_files all_exit_0 ''/tmp/w.json'' (id :: string \<Rightarrow> string) id
       (example_args ''crt-c'' ''foo'')"

definition run_build2_fails :: "int \<times> world" where
  "run_build2_fails =
     main log10_fifteen no_files build2_fails ''/tmp/w.json'' (id :: string \<Rightarrow> string) id
       (example_args ''crt-c'' ''crt-java'')"

definition throughput_only :: "string metrics" where
  "throughput_only =
     empty_metrics\<lparr>throughput_median := Some ''10.20'', throughput_mean := Some ''10.10'',
                    throughput_min := Some ''9.80'', throughput_max := Some ''10.40'',
                    peak_rss := Some ''256.40''\<rparr>"

definition median_only :: "string metrics" where
  "median_only = empty_metrics\<lparr>throughput_median := Some ''10.20''\<rparr>"

section \<open>Decimal numerals\<close>

lemma digit_chars:
  "digit_char 0 = CHR ''0''" "digit_char 1 = CHR ''1''" "digit_char 2 = CHR ''2''"
  "digit_char 3 = CHR ''3''" "digit_char 4 = CHR ''4''" "digit_char 5 = CHR ''5''"
  "digit_char 6 = CHR ''6''" "digit_char 7 = CHR ''7''" "digit_char 8 = CHR ''8''"
  "digit_char 9 = CHR ''9''"
  by code_simp+

lemma digit_char_props:
  assumes "0 \<le> d" and "d < 10"
  shows "digit_val (digit_char d) = d" and "is_digit (digit_char d)"
proof -
  from assms have d: "d = 0 \<or> d = 1 \<or> d = 2 \<or> d = 3 \<or> d = 4 \<or> d = 5 \<or> d = 6 \<or> d = 7 \<or> d = 8 \<or> d = 9"
    by arith
  from d show "digit_val (digit_char d) = d"
    by (elim disjE) (simp_all add: digit_chars digit_val_def)
  from d show "is_digit (digit_char d)"
    by (elim disjE) (simp_all add: digit_chars is_digit_def)
qed

lemmas digit_val_digit_char = digit_char_props(1)
lemmas is_digit_digit_char = digit_char_props(2)

lemma of_char_digit: "(of_char c :: int) = 48 + digit_val c"
  by (simp add: digit_val_def)


lemma int_of_digits_snoc: "int_of_digits (ds @ [c]) = 10 * int_of_digits ds + digit_val c"
  by (simp add: int_of_digits_def)

lemma digits_of_int_digits: "0 \<le> n \<Longrightarrow> c \<in> set (digits_of_int n) \<Longrightarrow> is_digit c"
proof (induction n rule: digits_of_int.induct)
  case (1 n)
  show ?case
  proof (cases "n < 10")
    case True
    with 1(2,3) show ?thesis
      by (subst (asm) digits_of_int.simps) (simp add: is_digit_digit_char)
  next
    case False
    then have "0 \<le> n div 10" and "0 \<le> n mod 10" and "n mod 10 < 10"
      by simp_all
    with False 1 show ?thesis
      by (subst (asm) (2) digits_of_int.simps) (auto simp: is_digit_digit_char)
  qed
qed

lemma int_of_digits_of_int: "0 \<le> n \<Longrightarrow> int_of_digits (digits_of_int n) = n"
proof (induction n rule: digits_of_int.induct)
  case (1 n)
  show ?case
  proof (cases "n < 10")
    case True
    with 1(2) show ?thesis
      by (subst digits_of_int.simps) (simp add: int_of_digits_def digit_val_digit_char)
  next
    case False
    then have "0 \<le> n div 10" and "0 \<le> n mod 10" and "n mod 10 < 10"
      by simp_all
    with False 1 show ?thesis
      by (subst digits_of_int.simps) (simp add: int_of_digits_snoc digit_val_digit_char)
  qed
qed

lemma length_digits_of_int: "length (digits_of_int n) = log10_trunc n + 1"
proof (induction n rule: digits_of_int.induct)
  case (1 n)
  show ?case
  proof (cases "n < 10")
    case True
    then show ?thesis
      by (subst digits_of_int.simps, subst log10_trunc.simps) simp
  next
    case False
    with 1 show ?thesis
      by (subst digits_of_int.simps, subst log10_trunc.simps) simp
  qed
qed

lemma digits_of_int_not_Nil: "digits_of_int n \<noteq> []"
  using length_digits_of_int [of n] by auto

lemma log10_trunc_mono: "m \<le> n \<Longrightarrow> log10_trunc m \<le> log10_trunc n"
proof (induction n arbitrary: m rule: log10_trunc.induct)
  case (1 n)
  show ?case
  proof (cases "m < 10")
    case True
    then show ?thesis
      by (subst log10_trunc.simps) simp
  next
    case False
    with 1(2) have n: "\<not> n < 10" and "m div 10 \<le> n div 10"
      by (simp_all add: zdiv_mono1)
    with 1(1) have "log10_trunc (m div 10) \<le> log10_trunc (n div 10)"
      by simp
    with False n show ?thesis
      by (subst log10_trunc.simps, subst (2) log10_trunc.simps) simp
  qed
qed

lemma log10_trunc_bounds: "0 < n \<Longrightarrow> 10 ^ log10_trunc n \<le> n \<and> n < 10 ^ (log10_trunc n + 1)"
proof (induction n rule: log10_trunc.induct)
  case (1 n)
  show ?case
  proof (cases "n < 10")
    case True
    with 1(2) show ?thesis
      by (subst log10_trunc.simps, subst (2) log10_trunc.simps) simp
  next
    case False
    then have "0 < n div 10"
      by simp
    with False 1 have "10 ^ log10_trunc (n div 10) \<le> n div 10 \<and> n div 10 < 10 ^ (log10_trunc (n div 10) + 1)"
      by simp
    then have "10 * 10 ^ log10_trunc (n div 10) \<le> n \<and> n < 10 * 10 ^ (log10_trunc (n div 10) + 1)"
      by auto
    with False show ?thesis
      by (subst log10_trunc.simps, subst (2) log10_trunc.simps) simp
  qed
qed

lemma log10_trunc_floor_log: "0 < n \<Longrightarrow> int (log10_trunc n) = \<lfloor>log 10 (real_of_int n)\<rfloor>"
proof -
  assume n: "0 < n"
  from log10_trunc_bounds [OF n]
  have "int (10 ^ log10_trunc n) \<le> n" and "n < int (10 ^ (log10_trunc n + 1))"
    by simp_all
  then have "10 ^ log10_trunc n \<le> nat n" and "nat n < 10 ^ (log10_trunc n + 1)"
    by linarith+
  with floor_log_nat_eq_if [of 10 "log10_trunc n" "nat n"] n show ?thesis
    by simp
qed

lemma int_of_digits_zeros: "int_of_digits (replicate k CHR ''0'' @ ds) = int_of_digits ds"
  by (induction k) (simp_all add: int_of_digits_def digit_val_def)






section \<open>Properties of the payload parser\<close>

text \<open>
  Claim C1. The payload \<^verbatim>\<open>["upload-10MiB-3x"]\<close> is parsed, whatever the file system holds
  and whatever the logarithm of large numbers, into the workload with exactly three tasks,
  in this order: keys \<^verbatim>\<open>upload/10MiB-3x/1\<close>, \<^verbatim>\<open>upload/10MiB-3x/2\<close> and
  \<^verbatim>\<open>upload/10MiB-3x/3\<close>, each with action \<^verbatim>\<open>upload\<close> and size 10485760 bytes.
\<close>

theorem payload_upload_10MiB_3x:
  "parse_payload log10_big fs [''upload-10MiB-3x''] =
     Inr (JObj [(''version'', JInt 2),
                (''filesOnDisk'', JBool True),
                (''checksum'', JNull),
                (''maxRepeatCount'', JInt 10),
                (''maxRepeatSecs'', JInt 600),
                (''tasks'',
                 JArr [JObj [(''action'', JStr ''upload''), (''key'', JStr ''upload/10MiB-3x/1''),
                             (''size'', JInt 10485760)],
                       JObj [(''action'', JStr ''upload''), (''key'', JStr ''upload/10MiB-3x/2''),
                             (''size'', JInt 10485760)],
                       JObj [(''action'', JStr ''upload''), (''key'', JStr ''upload/10MiB-3x/3''),
                             (''size'', JInt 10485760)]])],
          JBool True)"
  by code_simp

section \<open>Task keys of a workload-name expansion\<close>

lemma int_width_digits:
  "1 \<le> n \<Longrightarrow> n < 10 ^ 15 - 2 \<Longrightarrow> int_width log10_big n = length (digits_of_int n)"
proof (cases "n = 1")
  case True
  then show ?thesis
    by (simp add: int_width_def length_digits_of_int) (subst log10_trunc.simps, simp)
next
  case False
  assume "1 \<le> n" and "n < 10 ^ 15 - 2"
  with False show ?thesis
    by (simp add: int_width_def log10_int_def length_digits_of_int)
qed

lemma length_digits_floor_log:
  assumes "1 \<le> n"
  shows "length (digits_of_int n) = nat \<lfloor>log 10 (real_of_int n)\<rfloor> + 1"
proof -
  from assms log10_trunc_floor_log [of n]
  have "int (log10_trunc n) = \<lfloor>log 10 (real_of_int n)\<rfloor>"
    by simp
  then have "log10_trunc n = nat \<lfloor>log 10 (real_of_int n)\<rfloor>"
    by linarith
  then show ?thesis
    by (simp add: length_digits_of_int)
qed

lemma index_shape:
  assumes "1 \<le> n" and "n < 10 ^ 15 - 2" and "i < nat n"
  shows "py_format_zero (int_width log10_big n) (int i + 1) =
           replicate (length (py_str_int n) - length (py_str_int (int i + 1))) CHR ''0''
             @ py_str_int (int i + 1)"
    and "length (py_str_int (int i + 1)) \<le> length (py_str_int n)"
    and "length (py_format_zero (int_width log10_big n) (int i + 1)) = length (py_str_int n)"
    and "int_of_digits (py_format_zero (int_width log10_big n) (int i + 1)) = int i + 1"
    and "\<forall>c\<in>set (py_format_zero (int_width log10_big n) (int i + 1)). is_digit c"
proof -
  have s: "py_str_int (int i + 1) = digits_of_int (int i + 1)" "py_str_int n = digits_of_int n"
    using assms by (simp_all add: py_str_int_def)
  show le: "length (py_str_int (int i + 1)) \<le> length (py_str_int n)"
    using assms log10_trunc_mono [of "int i + 1" n] by (simp add: s length_digits_of_int)
  have f: "py_format_zero (int_width log10_big n) (int i + 1) =
      replicate (length (digits_of_int n) - length (digits_of_int (int i + 1))) CHR ''0''
        @ digits_of_int (int i + 1)"
    using assms by (simp add: py_format_zero_def int_width_digits)
  show "py_format_zero (int_width log10_big n) (int i + 1) =
           replicate (length (py_str_int n) - length (py_str_int (int i + 1))) CHR ''0''
             @ py_str_int (int i + 1)"
    by (simp add: f s)
  show "length (py_format_zero (int_width log10_big n) (int i + 1)) = length (py_str_int n)"
    using le by (simp add: f s)
  show "int_of_digits (py_format_zero (int_width log10_big n) (int i + 1)) = int i + 1"
    by (simp add: f int_of_digits_zeros int_of_digits_of_int)
  show "\<forall>c\<in>set (py_format_zero (int_width log10_big n) (int i + 1)). is_digit c"
  proof
    fix c
    assume "c \<in> set (py_format_zero (int_width log10_big n) (int i + 1))"
    then have "c = CHR ''0'' \<or> c \<in> set (digits_of_int (int i + 1))"
      by (auto simp: f)
    then show "is_digit c"
      using digits_of_int_digits [of "int i + 1" c] by (auto simp: is_digit_def)
  qed
qed

lemma generate_tasks_ok:
  assumes "parse_workload_name name = Inr (action, file_size_str, num_files, files_on_disk)"
    and "size_from_str file_size_str = Inr file_size"
  shows "generate_tasks_from_workload_name log10_big name =
           Inr (map (make_task log10_big action file_size_str num_files file_size)
                  [0..<nat num_files],
                files_on_disk)"
  using assms by (simp add: generate_tasks_from_workload_name_def)






text \<open>
  Claim C7 as stated fails for ten files. The keys of ten files end in \<^verbatim>\<open>01\<close> to
  \<^verbatim>\<open>10\<close>: the index is padded to two digits, while the ceiling of the logarithm of 10 to
  base 10 is 1.
\<close>

theorem index_width_ten_files:
  "generate_tasks_from_workload_name log10_fifteen ''upload-1MiB-10x'' =
     Inr ([\<lparr>task_action = ''upload'', task_key = ''upload/1MiB-10x/01'', task_size = 1048576\<rparr>,
           \<lparr>task_action = ''upload'', task_key = ''upload/1MiB-10x/02'', task_size = 1048576\<rparr>,
           \<lparr>task_action = ''upload'', task_key = ''upload/1MiB-10x/03'', task_size = 1048576\<rparr>,
           \<lparr>task_action = ''upload'', task_key = ''upload/1MiB-10x/04'', task_size = 1048576\<rparr>,
           \<lparr>task_action = ''upload'', task_key = ''upload/1MiB-10x/05'', task_size = 1048576\<rparr>,
           \<lparr>task_action = ''upload'', task_key = ''upload/1MiB-10x/06'', task_size = 1048576\<rparr>,
           \<lparr>task_action = ''upload'', task_key = ''upload/1MiB-10x/07'', task_size = 1048576\<rparr>,
           \<lparr>task_action = ''upload'', task_key = ''upload/1MiB-10x/08'', task_size = 1048576\<rparr>,
           \<lparr>task_action = ''upload'', task_key = ''upload/1MiB-10x/09'', task_size = 1048576\<rparr>,
           \<lparr>task_action = ''upload'', task_key = ''upload/1MiB-10x/10'', task_size = 1048576\<rparr>],
          True)
   \<and> max 1 (nat \<lceil>log 10 (real_of_int 10)\<rceil>) = 1"
proof (intro conjI)
  show "generate_tasks_from_workload_name log10_fifteen ''upload-1MiB-10x'' =
     Inr ([\<lparr>task_action = ''upload'', task_key = ''upload/1MiB-10x/01'', task_size = 1048576\<rparr>,
           \<lparr>task_action = ''upload'', task_key = ''upload/1MiB-10x/02'', task_size = 1048576\<rparr>,
           \<lparr>task_action = ''upload'', task_key = ''upload/1MiB-10x/03'', task_size = 1048576\<rparr>,
           \<lparr>task_action = ''upload'', task_key = ''upload/1MiB-10x/04'', task_size = 1048576\<rparr>,
           \<lparr>task_action = ''upload'', task_key = ''upload/1MiB-10x/05'', task_size = 1048576\<rparr>,
           \<lparr>task_action = ''upload'', task_key = ''upload/1MiB-10x/06'', task_size = 1048576\<rparr>,
           \<lparr>task_action = ''upload'', task_key = ''upload/1MiB-10x/07'', task_size = 1048576\<rparr>,
           \<lparr>task_action = ''upload'', task_key = ''upload/1MiB-10x/08'', task_size = 1048576\<rparr>,
           \<lparr>task_action = ''upload'', task_key = ''upload/1MiB-10x/09'', task_size = 1048576\<rparr>,
           \<lparr>task_action = ''upload'', task_key = ''upload/1MiB-10x/10'', task_size = 1048576\<rparr>],
          True)"
    by code_simp
  show "max 1 (nat \<lceil>log 10 (real_of_int 10)\<rceil>) = 1"
    by simp
qed

text \<open>
  Claim C7, amended. For a file count of at least 1 and below \<open>10\<^sup>1\<^sup>5 - 2\<close>, the index
  component of the key of file \<open>i + 1\<close> is the decimal numeral of \<open>i + 1\<close> with zeros in
  front, and it has exactly \<open>\<lfloor>log\<^sub>1\<^sub>0 num_files\<rfloor> + 1\<close> characters, the number of decimal
  digits of the file count.
\<close>

theorem index_width_floor_log:
  assumes "parse_workload_name name = Inr (action, file_size_str, num_files, files_on_disk)"
    and "size_from_str file_size_str = Inr file_size"
    and "1 \<le> num_files" and "num_files < 10 ^ 15 - 2"
  shows "\<exists>tasks. generate_tasks_from_workload_name log10_big name = Inr (tasks, files_on_disk)
           \<and> length tasks = nat num_files
           \<and> (\<forall>i<nat num_files. \<exists>zeros.
                 task_key (tasks ! i) =
                   action @ ''/'' @ file_size_str @ ''-'' @ py_format_grouped num_files @ ''x/''
                     @ replicate zeros CHR ''0'' @ py_str_int (int i + 1)
                 \<and> zeros + length (py_str_int (int i + 1)) =
                     nat \<lfloor>log 10 (real_of_int num_files)\<rfloor> + 1)"
proof (intro exI conjI allI impI)
  let ?tasks = "map (make_task log10_big action file_size_str num_files file_size) [0..<nat num_files]"
  show "generate_tasks_from_workload_name log10_big name = Inr (?tasks, files_on_disk)"
    using assms(1,2) by (rule generate_tasks_ok)
  show "length ?tasks = nat num_files"
    by simp
  fix i
  assume i: "i < nat num_files"
  let ?zeros = "length (py_str_int num_files) - length (py_str_int (int i + 1))"
  show "task_key (?tasks ! i) =
          action @ ''/'' @ file_size_str @ ''-'' @ py_format_grouped num_files @ ''x/''
            @ replicate ?zeros CHR ''0'' @ py_str_int (int i + 1)"
    using i index_shape(1) [OF assms(3,4) i, of log10_big]
    by (simp add: make_task_def dirname_def)
  have "length (py_str_int num_files) = nat \<lfloor>log 10 (real_of_int num_files)\<rfloor> + 1"
    using assms(3) length_digits_floor_log [OF assms(3)] by (simp add: py_str_int_def)
  then show "?zeros + length (py_str_int (int i + 1)) = nat \<lfloor>log 10 (real_of_int num_files)\<rfloor> + 1"
    using index_shape(2) [OF assms(3,4) i] by simp
qed

theorem index_width_floor_log_witness:
  "\<exists>tasks. generate_tasks_from_workload_name log10_fifteen ''download-5GiB-1_000x-ram'' =
             Inr (tasks, False)
           \<and> length tasks = nat 1000
           \<and> (\<forall>i<nat 1000. \<exists>zeros.
                 task_key (tasks ! i) =
                   ''download'' @ ''/'' @ ''5GiB'' @ ''-'' @ py_format_grouped 1000 @ ''x/''
                     @ replicate zeros CHR ''0'' @ py_str_int (int i + 1)
                 \<and> zeros + length (py_str_int (int i + 1)) =
                     nat \<lfloor>log 10 (real_of_int 1000)\<rfloor> + 1)"
proof -
  have p: "parse_workload_name ''download-5GiB-1_000x-ram'' = Inr (''download'', ''5GiB'', 1000, False)"
    by code_simp
  have s: "size_from_str ''5GiB'' = Inr 5368709120"
    by code_simp
  have n: "(1::int) \<le> 1000" "(1000::int) < 10 ^ 15 - 2"
    by simp_all
  show ?thesis
    by (rule index_width_floor_log [OF p s n])
qed

end
